theory Spec2Isabelle
  imports Complex_Main
begin

section \<open>BMI calculator: the evaluator and the history aggregator\<close>

text \<open>
  The development embeds the two pure functions of \<^verbatim>\<open>bmi_app.py\<close>:
  \<^verbatim>\<open>calculate_bmi\<close> (lines 66-79) and \<^verbatim>\<open>get_bmi_statistics\<close> (lines 104-121).

  Numbers. The specification speaks of weights, heights and BMI values as reals, and the
  embedding follows it: a Python \<^verbatim>\<open>float\<close> is modelled by the real number it denotes and
  \<^verbatim>\<open>/\<close>, \<^verbatim>\<open>**\<close>, \<^verbatim>\<open>-\<close> and the comparisons are the exact operations on \<^typ>\<open>real\<close>. The
  binary rounding of each IEEE operation, overflow of \<^verbatim>\<open>height ** 2\<close>, underflow and NaN are
  outside this model.
\<close>

subsection \<open>Python's division and \<^verbatim>\<open>round(x, 2)\<close>\<close>

text \<open>
  The exceptions the two functions could meet: Python's \<^verbatim>\<open>/\<close> raises
  \<^verbatim>\<open>ZeroDivisionError\<close> on a zero divisor, and \<^verbatim>\<open>iloc\<close> raises \<^verbatim>\<open>IndexError\<close> on a
  position out of range.
\<close>

datatype error = ZeroDivisionError | IndexError

definition py_truediv :: "real \<Rightarrow> real \<Rightarrow> error + real" where
  "py_truediv x y = (if y = 0 then Inl ZeroDivisionError else Inr (x / y))"

text \<open>
  The built-in \<^verbatim>\<open>round\<close> rounds to the nearest value and resolves a tie towards the even
  neighbour. \<open>round_half_even\<close> is that rule on integers; \<open>py_round ndigits\<close> scales by
  \<open>10 ^ ndigits\<close>, as \<^verbatim>\<open>round(x, ndigits)\<close> does for \<open>ndigits \<ge> 0\<close>.
\<close>

definition round_half_even :: "real \<Rightarrow> int" where
  "round_half_even y =
     (let f = \<lfloor>y\<rfloor>; d = y - of_int f in
      if d < 1 / 2 then f
      else if 1 / 2 < d then f + 1
      else if even f then f else f + 1)"

definition py_round :: "real \<Rightarrow> nat \<Rightarrow> real" where
  "py_round x ndigits = of_int (round_half_even (x * 10 ^ ndigits)) / 10 ^ ndigits"

subsection \<open>\<^verbatim>\<open>calculate_bmi\<close>\<close>

text \<open>
  \<^verbatim>\<open>
  def calculate_bmi(weight, height):
      if height <= 0:
          return 0.0, "Invalid height"
      bmi = weight / (height ** 2)
      if bmi < 18.5:             category = "Underweight"
      elif 18.5 <= bmi < 25:     category = "Normal weight"
      elif 25 <= bmi < 30:       category = "Overweight"
      else:                      category = "Obese"
      return round(bmi, 2), category
  \<close>
  \<open>categorize\<close> is the \<^verbatim>\<open>if\<close>/\<^verbatim>\<open>elif\<close> chain of lines 71-78, in the order and with the
  comparisons of the source.
\<close>

definition categorize :: "real \<Rightarrow> string" where
  "categorize bmi =
     (if bmi < 18.5 then ''Underweight''
      else if 18.5 \<le> bmi \<and> bmi < 25 then ''Normal weight''
      else if 25 \<le> bmi \<and> bmi < 30 then ''Overweight''
      else ''Obese'')"

definition calculate_bmi :: "real \<Rightarrow> real \<Rightarrow> error + (real \<times> string)" where
  "calculate_bmi weight height =
     (if height \<le> 0 then Inr (0, ''Invalid height'')
      else case py_truediv weight (height ^ 2) of
             Inl e \<Rightarrow> Inl e
           | Inr bmi \<Rightarrow> Inr (py_round bmi 2, categorize bmi))"

subsection \<open>The history table and the pandas operations used on it\<close>

text \<open>
  \<^verbatim>\<open>get_user_bmi_history\<close> selects the columns \<^verbatim>\<open>weight, height, bmi, category, recorded_at\<close>
  of one user's records, \<^verbatim>\<open>ORDER BY recorded_at DESC\<close>: row 0 is the most recent record and the
  last row the oldest. A data frame is the list of its rows; the columns \<^verbatim>\<open>weight\<close>, \<^verbatim>\<open>height\<close>
  and \<^verbatim>\<open>bmi\<close> are \<^verbatim>\<open>REAL NOT NULL\<close>, so every cell holds a number.
\<close>

record bmi_row =
  weight :: real
  height :: real
  bmi :: real
  category :: string
  recorded_at :: nat

text \<open>
  \<^verbatim>\<open>df.iloc[i]\<close>: a negative position counts from the end, a position out of range raises
  \<^verbatim>\<open>IndexError\<close>. \<open>cell df i col\<close> is \<^verbatim>\<open>df.iloc[i][col]\<close>.
\<close>

definition iloc :: "'a list \<Rightarrow> int \<Rightarrow> error + 'a" where
  "iloc df i =
     (let n = int (length df); j = (if i < 0 then n + i else i) in
      if 0 \<le> j \<and> j < n then Inr (df ! nat j) else Inl IndexError)"

definition cell :: "'r list \<Rightarrow> int \<Rightarrow> ('r \<Rightarrow> 'c) \<Rightarrow> error + 'c" where
  "cell df i col = (case iloc df i of Inl e \<Rightarrow> Inl e | Inr row \<Rightarrow> Inr (col row))"

definition bind_err :: "'e + 'a \<Rightarrow> ('a \<Rightarrow> 'e + 'b) \<Rightarrow> 'e + 'b" where
  "bind_err m f = (case m of Inl e \<Rightarrow> Inl e | Inr x \<Rightarrow> f x)"

text \<open>
  \<^verbatim>\<open>Series.mean()\<close>, \<^verbatim>\<open>.min()\<close> and \<^verbatim>\<open>.max()\<close> as reductions over the column, front to back.
  They are applied to a non-empty column only (the \<^verbatim>\<open>df.empty\<close> guard comes first).
\<close>

definition series_mean :: "real list \<Rightarrow> real" where
  "series_mean xs = fold (+) xs 0 / real (length xs)"

definition series_min :: "real list \<Rightarrow> real" where
  "series_min xs = fold min (tl xs) (hd xs)"

definition series_max :: "real list \<Rightarrow> real" where
  "series_max xs = fold max (tl xs) (hd xs)"

subsection \<open>\<^verbatim>\<open>get_bmi_statistics\<close>\<close>

text \<open>
  \<^verbatim>\<open>
  def get_bmi_statistics(df):
      if df.empty:
          return {}
      stats = {
          'total_records': len(df),
          'current_bmi': df.iloc[0]['bmi'],
          'average_bmi': df['bmi'].mean(),
          'min_bmi': df['bmi'].min(),
          'max_bmi': df['bmi'].max(),
          'weight_change': df.iloc[0]['weight'] - df.iloc[-1]['weight'] if len(df) > 1 else 0,
          'bmi_trend': (
              'Increasing' if len(df) > 1 and df.iloc[0]['bmi'] < df.iloc[-1]['bmi']
              else 'Decreasing' if len(df) > 1 and df.iloc[0]['bmi'] > df.iloc[-1]['bmi']
              else 'No trend')
      }
      return stats
  \<close>
  The values of the dictionary are Python integers, floats and strings; the dictionary is a
  map from its keys.
\<close>

datatype pyval = PInt int | PFloat real | PStr string

definition weight_change :: "bmi_row list \<Rightarrow> error + pyval" where
  "weight_change df =
     (if 1 < length df
      then bind_err (cell df 0 weight) (\<lambda>a.
           bind_err (cell df (- 1) weight) (\<lambda>b. Inr (PFloat (a - b))))
      else Inr (PInt 0))"

definition bmi_trend :: "bmi_row list \<Rightarrow> error + pyval" where
  "bmi_trend df =
     bind_err (if 1 < length df
               then bind_err (cell df 0 bmi) (\<lambda>a.
                    bind_err (cell df (- 1) bmi) (\<lambda>b. Inr (a < b)))
               else Inr False) (\<lambda>increasing.
     if increasing then Inr (PStr ''Increasing'')
     else
     bind_err (if 1 < length df
               then bind_err (cell df 0 bmi) (\<lambda>a.
                    bind_err (cell df (- 1) bmi) (\<lambda>b. Inr (a > b)))
               else Inr False) (\<lambda>decreasing.
     if decreasing then Inr (PStr ''Decreasing'')
     else Inr (PStr ''No trend'')))"

definition get_bmi_statistics :: "bmi_row list \<Rightarrow> error + (string \<rightharpoonup> pyval)" where
  "get_bmi_statistics df =
     (if df = [] then Inr Map.empty
      else
        bind_err (cell df 0 bmi) (\<lambda>current.
        bind_err (weight_change df) (\<lambda>change.
        bind_err (bmi_trend df) (\<lambda>trend.
        Inr [''total_records'' \<mapsto> PInt (int (length df)),
             ''current_bmi'' \<mapsto> PFloat current,
             ''average_bmi'' \<mapsto> PFloat (series_mean (map bmi df)),
             ''min_bmi'' \<mapsto> PFloat (series_min (map bmi df)),
             ''max_bmi'' \<mapsto> PFloat (series_max (map bmi df)),
             ''weight_change'' \<mapsto> change,
             ''bmi_trend'' \<mapsto> trend]))))"

text \<open>The number a dictionary value stands for, as \<^verbatim>\<open>float(v)\<close> reads it.\<close>

fun py_num :: "pyval \<Rightarrow> real option" where
  "py_num (PInt i) = Some (of_int i)"
| "py_num (PFloat x) = Some x"
| "py_num (PStr s) = None"

subsection \<open>The rounding rule in the specification's words\<close>

text \<open>
  Rounding half to even: \<open>n\<close> is an integer nearest to \<open>y\<close>, and the even one when two
  integers are equally near. A value \<open>v\<close> is \<open>x\<close> rounded to two decimal places when
  \<open>v = n / 100\<close> for the \<open>n\<close> that rounds \<open>100 * x\<close>.
\<close>

definition nearest_ties_even :: "real \<Rightarrow> int \<Rightarrow> bool" where
  "nearest_ties_even y n \<longleftrightarrow>
     \<bar>y - of_int n\<bar> \<le> 1 / 2 \<and> (\<bar>y - of_int n\<bar> = 1 / 2 \<longrightarrow> even n)"

definition rounded_2dp :: "real \<Rightarrow> real \<Rightarrow> bool" where
  "rounded_2dp x v \<longleftrightarrow> (\<exists>n. v = of_int n / 100 \<and> nearest_ties_even (x * 100) n)"

section \<open>Rounding half to even\<close>

text \<open>
  \<open>round_half_even\<close> returns the integer that the specification's rule describes, and it
  is the only one; so \<open>py_round x 2\<close> is the one value that is \<open>x\<close> rounded to two decimal
  places. A non-positive number is never rounded to a positive one.
\<close>

lemma round_half_even_nearest: "nearest_ties_even y (round_half_even y)"
  unfolding nearest_ties_even_def round_half_even_def Let_def
  by (auto simp: abs_if; linarith)

lemma nearest_ties_even_unique:
  assumes "nearest_ties_even y n"
  shows "n = round_half_even y"
proof -
  let ?f = "\<lfloor>y\<rfloor>"
  have fl: "of_int ?f \<le> y" "y < of_int ?f + 1" by linarith+
  from assms have a: "\<bar>y - of_int n\<bar> \<le> 1 / 2" and e: "\<bar>y - of_int n\<bar> = 1 / 2 \<Longrightarrow> even n"
    by (auto simp: nearest_ties_even_def)
  from a fl have "real_of_int n < real_of_int ?f + 2" "real_of_int ?f - 1 < real_of_int n" 
    by linarith+
  then have "n < ?f + 2" "?f - 1 < n" by linarith+
  then have cases: "n = ?f \<or> n = ?f + 1" by linarith
  show ?thesis
  proof (cases "y - of_int ?f < 1 / 2")
    case True
    with a cases have "n = ?f" by (auto simp: abs_if split: if_splits)
    with True show ?thesis by (simp add: round_half_even_def)
  next
    case False
    note nf = this
    show ?thesis
    proof (cases "1 / 2 < y - of_int ?f")
      case True
      with a cases have "n = ?f + 1" by (auto simp: abs_if split: if_splits)
      with True nf show ?thesis by (simp add: round_half_even_def)
    next
      case False
      with nf have eq: "y - of_int ?f = 1 / 2" by linarith
      with cases have "\<bar>y - of_int n\<bar> = 1 / 2" by (auto simp: abs_if)
      then have "even n" by (rule e)
      with cases have "n = (if even ?f then ?f else ?f + 1)" by auto
      with eq show ?thesis by (simp add: round_half_even_def)
    qed
  qed
qed

lemma rounded_2dp_iff: "rounded_2dp x v \<longleftrightarrow> v = py_round x 2"
proof
  assume "rounded_2dp x v"
  then obtain n where "v = of_int n / 100" "nearest_ties_even (x * 100) n"
    by (auto simp: rounded_2dp_def)
  then show "v = py_round x 2"
    using nearest_ties_even_unique [of "x * 100" n] by (simp add: py_round_def)
next
  assume "v = py_round x 2"
  then show "rounded_2dp x v"
    unfolding rounded_2dp_def py_round_def
    using round_half_even_nearest [of "x * 100"] by auto
qed

lemma round_half_even_nonpos: "y \<le> 0 \<Longrightarrow> round_half_even y \<le> 0"
  unfolding round_half_even_def Let_def
  by (auto; linarith)

lemma py_round_nonpos: "x \<le> 0 \<Longrightarrow> py_round x n \<le> 0"
  unfolding py_round_def
  using round_half_even_nonpos [of "x * 10 ^ n"]
  by (simp add: mult_le_0_iff divide_le_0_iff)

section \<open>Properties of the evaluator\<close>

text \<open>
  On a positive height the divisor \<open>h\<^sup>2\<close> is not zero, so the division raises nothing and
  the function returns the rounded quotient together with the category of the quotient
  itself.
\<close>

lemma calculate_bmi_valid:
  "0 < h \<Longrightarrow> calculate_bmi w h = Inr (py_round (w / h\<^sup>2) 2, categorize (w / h\<^sup>2))"
  by (simp add: calculate_bmi_def py_truediv_def)

lemma categorize_table:
  "(q < 18.5 \<longrightarrow> categorize q = ''Underweight'') \<and>
   (18.5 \<le> q \<and> q < 25 \<longrightarrow> categorize q = ''Normal weight'') \<and>
   (25 \<le> q \<and> q < 30 \<longrightarrow> categorize q = ''Overweight'') \<and>
   (30 \<le> q \<longrightarrow> categorize q = ''Obese'')"
  by (simp add: categorize_def)

lemma categorize_boundaries:
  "categorize 18.5 = ''Normal weight''" "categorize 25 = ''Overweight''"
  "categorize 30 = ''Obese''"
  by (simp_all add: categorize_def)

text \<open>
  C4. For every weight and every height \<open>\<le> 0\<close>, \<open>calculate_bmi\<close> raises no error: it
  returns the sentinel category "Invalid height" together with the BMI value 0.0.
\<close>

theorem calculate_bmi_invalid_height:
  "h \<le> 0 \<Longrightarrow> calculate_bmi w h = Inr (0, ''Invalid height'')"
  by (simp add: calculate_bmi_def)

theorem calculate_bmi_invalid_height_witness:
  "(- 1 :: real) \<le> 0 \<and> calculate_bmi 70 (- 1) = Inr (0, ''Invalid height'')"
  using calculate_bmi_invalid_height [of "- 1" 70] by simp

text \<open>
  C2. For every weight \<open>> 0\<close> and height \<open>> 0\<close>, \<open>calculate_bmi\<close> returns a BMI value equal
  to \<open>weight / height\<^sup>2\<close> rounded to two decimal places with Python's rounding, round half
  to even: the value is \<open>n / 100\<close> for an integer \<open>n\<close> nearest to \<open>100 * weight / height\<^sup>2\<close>,
  the even one on a tie, and no other value is.
\<close>

theorem calculate_bmi_value:
  assumes "0 < w" and "0 < h"
  shows "\<exists>v c. calculate_bmi w h = Inr (v, c) \<and> v = py_round (w / h\<^sup>2) 2 \<and>
           rounded_2dp (w / h\<^sup>2) v \<and> (\<forall>v'. rounded_2dp (w / h\<^sup>2) v' \<longrightarrow> v' = v)"
  using assms by (simp add: calculate_bmi_valid rounded_2dp_iff)

theorem calculate_bmi_value_witness:
  "(0::real) < 1 / 8 \<and> (0::real) < 1 \<and>
   calculate_bmi (1 / 8) 1 = Inr (12 / 100, ''Underweight'') \<and> rounded_2dp (1 / 8) (12 / 100)"
proof -
  have pos: "(0::real) < 1 / 8" "(0::real) < 1" by simp_all
  from calculate_bmi_value [OF pos] obtain v c where
    r: "calculate_bmi (1 / 8) 1 = Inr (v, c)" and v: "v = py_round (1 / 8 / 1\<^sup>2) 2"
    and s: "rounded_2dp (1 / 8 / 1\<^sup>2) v"
    by blast
  from v have v': "v = 12 / 100"
    by (simp add: py_round_def round_half_even_def Let_def)
  from r have "c = categorize (1 / 8 / 1\<^sup>2)" by (simp add: calculate_bmi_valid)
  then have "c = ''Underweight''" by (simp add: categorize_def)
  with r s v' pos show ?thesis by simp
qed

text \<open>
  C3. For every weight \<open>> 0\<close> and height \<open>> 0\<close>, the category returned by \<open>calculate_bmi\<close>
  follows the half-open threshold table, lower bound inclusive, on \<open>BMI = weight / height\<^sup>2\<close>:
  below 18.5 "Underweight", from 18.5 and below 25 "Normal weight", from 25 and below 30
  "Overweight", from 30 "Obese"; exactly 18.5 gives "Normal weight", exactly 25 gives
  "Overweight", exactly 30 gives "Obese".
\<close>

theorem calculate_bmi_category:
  assumes "0 < w" and "0 < h"
  shows "\<exists>v c. calculate_bmi w h = Inr (v, c) \<and>
           (w / h\<^sup>2 < 18.5 \<longrightarrow> c = ''Underweight'') \<and>
           (18.5 \<le> w / h\<^sup>2 \<and> w / h\<^sup>2 < 25 \<longrightarrow> c = ''Normal weight'') \<and>
           (25 \<le> w / h\<^sup>2 \<and> w / h\<^sup>2 < 30 \<longrightarrow> c = ''Overweight'') \<and>
           (30 \<le> w / h\<^sup>2 \<longrightarrow> c = ''Obese'') \<and>
           (w / h\<^sup>2 = 18.5 \<longrightarrow> c = ''Normal weight'') \<and>
           (w / h\<^sup>2 = 25 \<longrightarrow> c = ''Overweight'') \<and>
           (w / h\<^sup>2 = 30 \<longrightarrow> c = ''Obese'')"
proof -
  define q where "q = w / h\<^sup>2"
  have r: "calculate_bmi w h = Inr (py_round q 2, categorize q)"
    using assms by (simp add: calculate_bmi_valid q_def)
  have "(q = 18.5 \<longrightarrow> categorize q = ''Normal weight'') \<and>
        (q = 25 \<longrightarrow> categorize q = ''Overweight'') \<and>
        (q = 30 \<longrightarrow> categorize q = ''Obese'')"
    using categorize_boundaries by blast
  with r categorize_table [of q] show ?thesis
    unfolding q_def by blast
qed

theorem calculate_bmi_category_witness:
  "(0::real) < 18.5 \<and> (0::real) < 1 \<and>
   (\<exists>v. calculate_bmi 18.5 1 = Inr (v, ''Normal weight'')) \<and>
   (\<exists>v. calculate_bmi 25 1 = Inr (v, ''Overweight'')) \<and>
   (\<exists>v. calculate_bmi 30 1 = Inr (v, ''Obese'')) \<and>
   (\<exists>v. calculate_bmi 18.49 1 = Inr (v, ''Underweight''))"
  using calculate_bmi_category [of "18.5" 1] calculate_bmi_category [of 25 1]
    calculate_bmi_category [of 30 1] calculate_bmi_category [of "18.49" 1]
  by simp



text \<open>
  C10. For every weight \<open>\<le> 0\<close> and height \<open>> 0\<close>, \<open>calculate_bmi\<close> validates nothing about
  the weight: it returns the rounded quotient, which is \<open>\<le> 0\<close>, with the category
  "Underweight", and neither the "Invalid height" sentinel nor an error.
\<close>

theorem calculate_bmi_nonpositive_weight:
  assumes "w \<le> 0" and "0 < h"
  shows "calculate_bmi w h = Inr (py_round (w / h\<^sup>2) 2, ''Underweight'') \<and>
         py_round (w / h\<^sup>2) 2 \<le> 0"
proof -
  from assms have q: "w / h\<^sup>2 \<le> 0" by (simp add: divide_le_0_iff)
  then have "categorize (w / h\<^sup>2) = ''Underweight''"
    using categorize_table [of "w / h\<^sup>2"] by linarith
  with assms q show ?thesis by (simp add: calculate_bmi_valid py_round_nonpos)
qed

theorem calculate_bmi_nonpositive_weight_witness:
  "(- 50 :: real) \<le> 0 \<and> (0::real) < 2 \<and> calculate_bmi (- 50) 2 = Inr (- 12.5, ''Underweight'')"
proof -
  have "py_round (- 50 / 2\<^sup>2) 2 = - 12.5"
    by (simp add: py_round_def round_half_even_def Let_def)
  with calculate_bmi_nonpositive_weight [of "- 50" 2] show ?thesis by simp
qed

section \<open>Properties of the aggregator\<close>

text \<open>
  On a non-empty frame both positions read by the function, 0 and -1, are in range: no
  \<^verbatim>\<open>IndexError\<close> is raised and the dictionary is the one below, with row 0 for
  \<^verbatim>\<open>iloc[0]\<close> and row \<open>length df - 1\<close> for \<^verbatim>\<open>iloc[-1]\<close>. The reductions of the column are
  the sum divided by the count, the least and the greatest value.
\<close>

lemma iloc_first: "df \<noteq> [] \<Longrightarrow> iloc df 0 = Inr (df ! 0)"
  by (simp add: iloc_def)

lemma iloc_last: "df \<noteq> [] \<Longrightarrow> iloc df (- 1) = Inr (df ! (length df - 1))"
proof -
  assume "df \<noteq> []"
  then have "0 < length df" by simp
  then have "nat (int (length df) + - 1) = length df - 1" by linarith
  with \<open>0 < length df\<close> show ?thesis by (simp add: iloc_def Let_def)
qed

lemma cell_first: "df \<noteq> [] \<Longrightarrow> cell df 0 col = Inr (col (df ! 0))"
  by (simp add: cell_def iloc_first)

lemma cell_last: "df \<noteq> [] \<Longrightarrow> cell df (- 1) col = Inr (col (df ! (length df - 1)))"
  by (simp add: cell_def iloc_last)

lemma bind_err_Inr: "bind_err (Inr x) f = f x"
  by (simp add: bind_err_def)

lemma weight_change_eq:
  "df \<noteq> [] \<Longrightarrow> weight_change df =
     Inr (if 1 < length df then PFloat (weight (df ! 0) - weight (df ! (length df - 1)))
          else PInt 0)"
  by (simp add: weight_change_def cell_first cell_last bind_err_Inr)

lemma bmi_trend_eq:
  "df \<noteq> [] \<Longrightarrow> bmi_trend df =
     Inr (PStr (if 1 < length df \<and> bmi (df ! 0) < bmi (df ! (length df - 1)) then ''Increasing''
                else if 1 < length df \<and> bmi (df ! 0) > bmi (df ! (length df - 1)) then ''Decreasing''
                else ''No trend''))"
  by (simp add: bmi_trend_def cell_first cell_last bind_err_Inr)

lemma get_bmi_statistics_nonempty:
  "df \<noteq> [] \<Longrightarrow> get_bmi_statistics df =
     Inr [''total_records'' \<mapsto> PInt (int (length df)),
          ''current_bmi'' \<mapsto> PFloat (bmi (df ! 0)),
          ''average_bmi'' \<mapsto> PFloat (series_mean (map bmi df)),
          ''min_bmi'' \<mapsto> PFloat (series_min (map bmi df)),
          ''max_bmi'' \<mapsto> PFloat (series_max (map bmi df)),
          ''weight_change'' \<mapsto>
             (if 1 < length df then PFloat (weight (df ! 0) - weight (df ! (length df - 1)))
              else PInt 0),
          ''bmi_trend'' \<mapsto>
             PStr (if 1 < length df \<and> bmi (df ! 0) < bmi (df ! (length df - 1)) then ''Increasing''
                   else if 1 < length df \<and> bmi (df ! 0) > bmi (df ! (length df - 1))
                   then ''Decreasing'' else ''No trend'')]"
  by (simp add: get_bmi_statistics_def cell_first weight_change_eq bmi_trend_eq bind_err_Inr)

lemma series_mean_eq: "series_mean xs = sum_list xs / real (length xs)"
proof -
  have "fold (+) xs a = sum_list xs + a" for a :: real
    by (induction xs arbitrary: a) simp_all
  then show ?thesis by (simp add: series_mean_def)
qed

lemma series_min_eq: "xs \<noteq> [] \<Longrightarrow> series_min xs = Min (set xs)"
proof (cases xs)
  case Nil
  assume "xs \<noteq> []"
  with Nil show ?thesis by simp
next
  case (Cons a list)
  then show ?thesis
    unfolding series_min_def by (simp only: list.sel Min.set_eq_fold)
qed

lemma series_max_eq: "xs \<noteq> [] \<Longrightarrow> series_max xs = Max (set xs)"
proof (cases xs)
  case Nil
  assume "xs \<noteq> []"
  with Nil show ?thesis by simp
next
  case (Cons a list)
  then show ?thesis
    unfolding series_max_def by (simp only: list.sel Max.set_eq_fold)
qed

text \<open>
  C5. For the empty series, \<open>get_bmi_statistics\<close> returns the empty dictionary, a
  Statistics with no field populated, and not an error.
\<close>

theorem get_bmi_statistics_empty:
  "get_bmi_statistics [] = Inr Map.empty"
  by (simp add: get_bmi_statistics_def)

text \<open>
  C8. For every non-empty series (most recent first), \<open>total_records\<close> is the length of
  the series, \<open>current_bmi\<close> the BMI of row 0, and \<open>average_bmi\<close>, \<open>min_bmi\<close>, \<open>max_bmi\<close>
  are the arithmetic mean, the minimum and the maximum of all BMI values of the series.
\<close>

theorem get_bmi_statistics_summary:
  assumes "df \<noteq> []"
  shows "\<exists>stats. get_bmi_statistics df = Inr stats \<and>
           stats ''total_records'' = Some (PInt (int (length df))) \<and>
           stats ''current_bmi'' = Some (PFloat (bmi (df ! 0))) \<and>
           stats ''average_bmi'' = Some (PFloat (sum_list (map bmi df) / real (length df))) \<and>
           stats ''min_bmi'' = Some (PFloat (Min (bmi ` set df))) \<and>
           stats ''max_bmi'' = Some (PFloat (Max (bmi ` set df)))"
  using assms
  by (simp add: get_bmi_statistics_nonempty series_mean_eq series_min_eq series_max_eq)

theorem get_bmi_statistics_summary_witness:
  "[\<lparr>weight = 68, height = 1.758, bmi = 22.0, category = ''Normal weight'', recorded_at = 3\<rparr>,
    \<lparr>weight = 70, height = 1.726, bmi = 23.5, category = ''Normal weight'', recorded_at = 2\<rparr>,
    \<lparr>weight = 71, height = 1.72, bmi = 24.0, category = ''Normal weight'', recorded_at = 1\<rparr>] \<noteq> [] \<and>
   (\<exists>stats. get_bmi_statistics
        [\<lparr>weight = 68, height = 1.758, bmi = 22.0, category = ''Normal weight'', recorded_at = 3\<rparr>,
         \<lparr>weight = 70, height = 1.726, bmi = 23.5, category = ''Normal weight'', recorded_at = 2\<rparr>,
         \<lparr>weight = 71, height = 1.72, bmi = 24.0, category = ''Normal weight'', recorded_at = 1\<rparr>]
        = Inr stats \<and>
      stats ''total_records'' = Some (PInt 3) \<and>
      stats ''current_bmi'' = Some (PFloat 22) \<and>
      stats ''average_bmi'' = Some (PFloat (139 / 6)) \<and>
      stats ''min_bmi'' = Some (PFloat 22) \<and>
      stats ''max_bmi'' = Some (PFloat 24))"
  using get_bmi_statistics_summary
    [of "[\<lparr>weight = 68, height = 1.758, bmi = 22.0, category = ''Normal weight'', recorded_at = 3\<rparr>,
          \<lparr>weight = 70, height = 1.726, bmi = 23.5, category = ''Normal weight'', recorded_at = 2\<rparr>,
          \<lparr>weight = 71, height = 1.72, bmi = 24.0, category = ''Normal weight'', recorded_at = 1\<rparr>]"]
  by simp

text \<open>
  C6. For every non-empty series (most recent first), \<open>weight_change\<close> is the weight of
  row 0 minus the weight of the last row when the series has more than one record, and 0
  when it has exactly one; it is positive exactly when the most recent weight is above
  the oldest one.
\<close>

theorem get_bmi_statistics_weight_change:
  assumes "df \<noteq> []"
  shows "\<exists>stats change. get_bmi_statistics df = Inr stats \<and>
           stats ''weight_change'' = Some change \<and>
           (1 < length df \<longrightarrow>
              change = PFloat (weight (df ! 0) - weight (df ! (length df - 1)))) \<and>
           (length df = 1 \<longrightarrow> change = PInt 0) \<and>
           (\<exists>x. py_num change = Some x \<and>
              (0 < x \<longleftrightarrow> 1 < length df \<and> weight (df ! (length df - 1)) < weight (df ! 0)))"
  using assms
  by (simp add: get_bmi_statistics_nonempty)

theorem get_bmi_statistics_weight_change_witness:
  "[\<lparr>weight = 68, height = 1.758, bmi = 22.0, category = ''Normal weight'', recorded_at = 3\<rparr>,
    \<lparr>weight = 70, height = 1.726, bmi = 23.5, category = ''Normal weight'', recorded_at = 2\<rparr>,
    \<lparr>weight = 71, height = 1.72, bmi = 24.0, category = ''Normal weight'', recorded_at = 1\<rparr>] \<noteq> [] \<and>
   (\<exists>stats. get_bmi_statistics
        [\<lparr>weight = 68, height = 1.758, bmi = 22.0, category = ''Normal weight'', recorded_at = 3\<rparr>,
         \<lparr>weight = 70, height = 1.726, bmi = 23.5, category = ''Normal weight'', recorded_at = 2\<rparr>,
         \<lparr>weight = 71, height = 1.72, bmi = 24.0, category = ''Normal weight'', recorded_at = 1\<rparr>]
        = Inr stats \<and>
      stats ''weight_change'' = Some (PFloat (- 3)))"
  using get_bmi_statistics_weight_change
    [of "[\<lparr>weight = 68, height = 1.758, bmi = 22.0, category = ''Normal weight'', recorded_at = 3\<rparr>,
          \<lparr>weight = 70, height = 1.726, bmi = 23.5, category = ''Normal weight'', recorded_at = 2\<rparr>,
          \<lparr>weight = 71, height = 1.72, bmi = 24.0, category = ''Normal weight'', recorded_at = 1\<rparr>]"]
  by auto

text \<open>
  C7. For a series of exactly one record \<open>r\<close>, the result has \<open>total_records = 1\<close>,
  \<open>current_bmi = average_bmi = min_bmi = max_bmi = bmi r\<close>, \<open>weight_change = 0\<close> and
  \<open>bmi_trend = "No trend"\<close>.
\<close>

theorem get_bmi_statistics_single:
  "get_bmi_statistics [r] =
     Inr [''total_records'' \<mapsto> PInt 1,
          ''current_bmi'' \<mapsto> PFloat (bmi r),
          ''average_bmi'' \<mapsto> PFloat (bmi r),
          ''min_bmi'' \<mapsto> PFloat (bmi r),
          ''max_bmi'' \<mapsto> PFloat (bmi r),
          ''weight_change'' \<mapsto> PInt 0,
          ''bmi_trend'' \<mapsto> PStr ''No trend'']"
  by (simp add: get_bmi_statistics_nonempty series_mean_def series_min_def series_max_def)

text \<open>
  C1. The claim reads: for a series with more than one record, \<open>bmi_trend\<close> is
  "Increasing" if the most recent BMI (row 0) is greater than the oldest (last row),
  "Decreasing" if it is less, "No trend" if they are equal. The code compares the other
  way round (\<open>bmi_trend_eq\<close>): on the series with BMI 22.0 (most recent), 23.5, 24.0
  (oldest), where the most recent BMI is below the oldest, it answers "Increasing".
\<close>

theorem get_bmi_statistics_trend_inverted:
  "map_sum id (\<lambda>stats. stats ''bmi_trend'')
     (get_bmi_statistics
        [\<lparr>weight = 68, height = 1.758, bmi = 22.0, category = ''Normal weight'', recorded_at = 3\<rparr>,
         \<lparr>weight = 70, height = 1.726, bmi = 23.5, category = ''Normal weight'', recorded_at = 2\<rparr>,
         \<lparr>weight = 71, height = 1.72, bmi = 24.0, category = ''Normal weight'', recorded_at = 1\<rparr>])
   = Inr (Some (PStr ''Increasing''))"
  by (simp add: get_bmi_statistics_nonempty)

end
